theory Spec2Isabelle
  imports Main "HOL-Library.Word"
begin

unbundle bit_operations_syntax

section \<open>Machine types\<close>

text \<open>
  The program runs on an ATtiny84. \<open>uint8_t\<close> is an 8-bit word. The C type \<open>int\<close> is
  modelled by \<open>int\<close>: the program only compares \<open>int\<close> values with constants and applies
  \<open>&\<close> and \<open>>>\<close> to non-negative ones, so no \<open>int\<close> operation of the program can overflow.
  A \<open>uint8_t\<close> operand of \<open>&\<close>, \<open>>>\<close> or of a call with an \<open>int\<close> parameter is promoted
  to \<open>int\<close> with its value (\<open>uint\<close>); an \<open>int\<close> stored into a \<open>uint8_t\<close> is reduced
  modulo 256 (\<open>word_of_int\<close>).
\<close>

type_synonym u8 = "8 word"
type_synonym u16 = "16 word"

section \<open>Constants of baud-gen.c\<close>

definition PA_DDR_INIT :: int where "PA_DDR_INIT = 0b01000000"
definition PA_PUP_INIT :: int where "PA_PUP_INIT = 0b00111111"
definition PA_INIT :: int where "PA_INIT = 0x00"

definition PB_DDR_INIT :: int where "PB_DDR_INIT = 0b00000100"
definition PB_PUP_INIT :: int where "PB_PUP_INIT = 0b00000000"
definition PB_INIT :: int where "PB_INIT = 0x00"

definition BAUD_SEL_MASK :: int where "BAUD_SEL_MASK = 0b00111111"
definition BAUD_SEL_4800 :: int where "BAUD_SEL_4800 = 0"
definition BAUD_SEL_9600 :: int where "BAUD_SEL_9600 = 1"
definition BAUD_SEL_19200 :: int where "BAUD_SEL_19200 = 2"
definition BAUD_SEL_38400 :: int where "BAUD_SEL_38400 = 3"
definition BAUD_SEL_57600 :: int where "BAUD_SEL_57600 = 4"
definition BAUD_SEL_115200 :: int where "BAUD_SEL_115200 = 5"

definition BAUD_DIV_4800 :: int where "BAUD_DIV_4800 = 23"
definition BAUD_DIV_9600 :: int where "BAUD_DIV_9600 = 11"
definition BAUD_DIV_19200 :: int where "BAUD_DIV_19200 = 5"
definition BAUD_DIV_38400 :: int where "BAUD_DIV_38400 = 2"
definition BAUD_DIV_57600 :: int where "BAUD_DIV_57600 = 1"
definition BAUD_DIV_115200 :: int where "BAUD_DIV_115200 = 15"
definition BAUD_DEFAULT :: int where "BAUD_DEFAULT = BAUD_DIV_9600"

definition TCCR0A_INIT :: int where "TCCR0A_INIT = 0b01000010"
definition TCCR0B_INIT :: int where "TCCR0B_INIT = 0b00000001"
definition OCR0A_INIT :: int where "OCR0A_INIT = BAUD_DEFAULT"
definition TIMSK0_INIT :: int where "TIMSK0_INIT = 0b00000000"

definition TCCR1A_INIT :: int where "TCCR1A_INIT = 0b01000000"
definition TCCR1B_INIT :: int where "TCCR1B_INIT = 0b00001001"
definition OCR1A_INIT :: int where "OCR1A_INIT = BAUD_DEFAULT"
definition TIMSK1_INIT :: int where "TIMSK1_INIT = 0b00000000"

section \<open>Special function registers\<close>

text \<open>
  The registers the program assigns. All are 8 bits wide except \<open>OCR1A\<close>, the compare
  register of the 16-bit Timer/Counter1. The register file keeps, for each register, the
  value the program wrote last, and \<open>trace\<close> lists every write in program order, so that
  the number and the order of the writes can be stated. \<open>PINA\<close> is only read; its
  successive readings are an input of the program.
\<close>

datatype sfr8 =
  CLKPR | TCCR0A | TCCR0B | OCR0A | TIMSK0 | TCCR1A | TCCR1B | TIMSK1
  | DDRA | PORTA | DDRB | PORTB

datatype sfr16 = OCR1A

datatype reg_write = W8 sfr8 u8 | W16 sfr16 u16

record mcu =
  io8 :: "sfr8 \<Rightarrow> u8"
  io16 :: "sfr16 \<Rightarrow> u16"
  trace :: "reg_write list"

definition write8 :: "sfr8 \<Rightarrow> u8 \<Rightarrow> mcu \<Rightarrow> mcu" where
  "write8 r v m = m\<lparr>io8 := (io8 m)(r := v), trace := trace m @ [W8 r v]\<rparr>"

definition write16 :: "sfr16 \<Rightarrow> u16 \<Rightarrow> mcu \<Rightarrow> mcu" where
  "write16 r v m = m\<lparr>io16 := (io16 m)(r := v), trace := trace m @ [W16 r v]\<rparr>"

section \<open>ioinit\<close>

text \<open>The assignments of \<open>ioinit\<close>, in the order of the source.\<close>

definition ioinit :: "mcu \<Rightarrow> mcu" where
  "ioinit m0 =
    (let m = write8 CLKPR (word_of_int 0x80) m0;
         m = write8 CLKPR (word_of_int 0x00) m;
         m = write8 TCCR0A (word_of_int TCCR0A_INIT) m;
         m = write8 TCCR0B (word_of_int TCCR0B_INIT) m;
         m = write8 OCR0A (word_of_int OCR0A_INIT) m;
         m = write8 TIMSK0 (word_of_int TIMSK0_INIT) m;
         m = write8 TCCR1A (word_of_int TCCR1A_INIT) m;
         m = write8 TCCR1B (word_of_int TCCR1B_INIT) m;
         m = write16 OCR1A (word_of_int OCR1A_INIT) m;
         m = write8 TIMSK1 (word_of_int TIMSK1_INIT) m;
         m = write8 DDRA (word_of_int PA_DDR_INIT) m;
         m = write8 PORTA (word_of_int (PA_INIT OR PA_PUP_INIT)) m;
         m = write8 DDRB (word_of_int PB_DDR_INIT) m;
         m = write8 PORTB (word_of_int (PB_INIT OR PB_PUP_INIT)) m
     in m)"

section \<open>baud\_set\<close>

text \<open>
  \<open>rate_divisor\<close> starts as \<open>BAUD_DEFAULT\<close> and is overwritten by the first branch of
  the \<open>if\<close> / \<open>else if\<close> chain whose test holds; the function has no other statement.
\<close>

definition baud_set :: "int \<Rightarrow> u8" where
  "baud_set baud =
    (let rate_divisor = word_of_int BAUD_DEFAULT in
     if baud = BAUD_SEL_4800 then word_of_int BAUD_DIV_4800
     else if baud = BAUD_SEL_9600 then word_of_int BAUD_DIV_9600
     else if baud = BAUD_SEL_19200 then word_of_int BAUD_DIV_19200
     else if baud = BAUD_SEL_38400 then word_of_int BAUD_DIV_38400
     else if baud = BAUD_SEL_57600 then word_of_int BAUD_DIV_57600
     else if baud = BAUD_SEL_115200 then word_of_int BAUD_DIV_115200
     else rate_divisor)"

section \<open>main\<close>

text \<open>
  The state of \<open>main\<close> is the register file and the local \<open>prev_selection\<close>; the other
  local, \<open>baud_select_bits\<close>, is assigned at the head of every iteration before it is
  read. \<open>cli()\<close> clears the interrupt flag, which is not part of the register file above.

  \<open>sample_bits pina\<close> is the value of \<open>baud_select_bits\<close> after
  \<open>baud_select_bits = PINA & BAUD_SEL_MASK\<close> when the read of \<open>PINA\<close> gives \<open>pina\<close>.
  \<open>loop_body pina s\<close> is one iteration of the \<open>while (1)\<close> loop. The loop has no exit;
  \<open>main_loop pinas s\<close> is the state after as many iterations as \<open>pinas\<close> has readings,
  and \<open>main pinas m\<close> the state reached from the register file \<open>m\<close> at the entry of
  \<open>main\<close>.
\<close>

record main_state =
  hw :: mcu
  prev_selection :: u8

definition sample_bits :: "u8 \<Rightarrow> u8" where
  "sample_bits pina = word_of_int (uint pina AND BAUD_SEL_MASK)"

definition loop_body :: "u8 \<Rightarrow> main_state \<Rightarrow> main_state" where
  "loop_body pina s =
    (let baud_select_bits = sample_bits pina in
     if baud_select_bits \<noteq> prev_selection s then
       (let m = write8 OCR0A (baud_set (uint baud_select_bits AND 0x07)) (hw s);
            m = write16 OCR1A
                  (ucast (baud_set (drop_bit 3 (uint baud_select_bits) AND 0x07))) m
        in s\<lparr>hw := m, prev_selection := baud_select_bits\<rparr>)
     else s)"

primrec main_loop :: "u8 list \<Rightarrow> main_state \<Rightarrow> main_state" where
  "main_loop [] s = s"
| "main_loop (pina # pinas) s = main_loop pinas (loop_body pina s)"

definition main_init :: "mcu \<Rightarrow> main_state" where
  "main_init m = \<lparr>hw = ioinit m, prev_selection = 0\<rparr>"

definition main :: "u8 list \<Rightarrow> mcu \<Rightarrow> main_state" where
  "main pinas m = main_loop pinas (main_init m)"

text \<open>A register file with every register zero and no write recorded, for examples.\<close>

definition mcu_zero :: mcu where
  "mcu_zero = \<lparr>io8 = (\<lambda>r. 0), io16 = (\<lambda>r. 0), trace = []\<rparr>"

section \<open>Unfolding the constants\<close>

lemmas baud_consts =
  BAUD_SEL_MASK_def BAUD_SEL_4800_def BAUD_SEL_9600_def BAUD_SEL_19200_def
  BAUD_SEL_38400_def BAUD_SEL_57600_def BAUD_SEL_115200_def
  BAUD_DIV_4800_def BAUD_DIV_9600_def BAUD_DIV_19200_def BAUD_DIV_38400_def
  BAUD_DIV_57600_def BAUD_DIV_115200_def BAUD_DEFAULT_def

lemmas init_consts =
  PA_DDR_INIT_def PA_PUP_INIT_def PA_INIT_def PB_DDR_INIT_def PB_PUP_INIT_def PB_INIT_def
  TCCR0A_INIT_def TCCR0B_INIT_def OCR0A_INIT_def TIMSK0_INIT_def
  TCCR1A_INIT_def TCCR1B_INIT_def OCR1A_INIT_def TIMSK1_INIT_def

section \<open>Auxiliary facts\<close>

subsection \<open>The bit fields of the selection\<close>

lemma sample_bits_mask: "sample_bits pina = pina AND 0x3F"
  by (simp add: sample_bits_def BAUD_SEL_MASK_def of_int_and_eq)

lemma sel_A_word: "uint (sel :: u8) AND 0x07 = uint (sel AND 0x07)"
  by (simp add: uint_and)

lemma uint_drop_bit_u8: "uint (drop_bit n (w :: u8)) = drop_bit n (uint w)"
  by (simp add: unsigned_drop_bit_eq bintr_uint)

lemma sel_B_word: "drop_bit 3 (uint (sel :: u8)) AND 0x07 = uint (drop_bit 3 (sel AND 0x38))"
proof -
  have "drop_bit 3 (sel AND 0x38) = drop_bit 3 sel AND 0x07"
    by simp
  then have "uint (drop_bit 3 (sel AND 0x38)) = uint (drop_bit 3 sel) AND 0x07"
    by (simp add: uint_and)
  then show ?thesis
    by (simp only: uint_drop_bit_u8)
qed

lemma sel_A_range: "0 \<le> uint (sel :: u8) AND 0x07 \<and> uint sel AND 0x07 \<le> 7"
  by (simp add: AND_upper2')

lemma sel_B_range:
  "0 \<le> drop_bit 3 (uint (sel :: u8)) AND 0x07 \<and> drop_bit 3 (uint sel) AND 0x07 \<le> 7"
  by (simp add: AND_upper2')

lemma sample_9: "sample_bits 0b001001 = 0b001001"
  by (simp add: sample_bits_def BAUD_SEL_MASK_def)

lemma sample_45: "sample_bits 0b101101 = 0b101101"
  by (simp add: sample_bits_def BAUD_SEL_MASK_def)

subsection \<open>The decoder\<close>

lemma baud_set_values:
  "baud_set 0 = 23" "baud_set 1 = 11" "baud_set 2 = 5" "baud_set 3 = 2"
  "baud_set 4 = 1" "baud_set 5 = 15" "baud_set 6 = 11" "baud_set 7 = 11"
  by (simp_all add: baud_set_def baud_consts)

lemma baud_set_cases: "baud_set baud \<in> {23, 11, 5, 2, 1, 15}"
  by (simp add: baud_set_def baud_consts)

subsection \<open>One iteration\<close>

lemma loop_body_changed:
  "sample_bits pina \<noteq> prev_selection s \<Longrightarrow>
   loop_body pina s =
     s\<lparr>hw := write16 OCR1A (ucast (baud_set (drop_bit 3 (uint (sample_bits pina)) AND 0x07)))
                (write8 OCR0A (baud_set (uint (sample_bits pina) AND 0x07)) (hw s)),
       prev_selection := sample_bits pina\<rparr>"
  by (simp add: loop_body_def Let_def)

lemma loop_body_unchanged:
  "sample_bits pina = prev_selection s \<Longrightarrow> loop_body pina s = s"
  by (simp add: loop_body_def)

lemma trace_loop_body:
  "trace (hw (loop_body pina s)) =
     trace (hw s) @
     (if sample_bits pina \<noteq> prev_selection s
      then [W8 OCR0A (baud_set (uint (sample_bits pina) AND 0x07)),
            W16 OCR1A (ucast (baud_set (drop_bit 3 (uint (sample_bits pina)) AND 0x07)))]
      else [])"
  by (simp add: loop_body_def Let_def write8_def write16_def)

lemma prev_loop_body: "prev_selection (loop_body pina s) = sample_bits pina"
  by (simp add: loop_body_def Let_def)

subsection \<open>Initialisation and runs\<close>

lemma ioinit_OCR0A: "io8 (ioinit m) OCR0A = 11"
  by (simp add: ioinit_def Let_def write8_def write16_def init_consts baud_consts)

lemma ioinit_OCR1A: "io16 (ioinit m) OCR1A = 11"
  by (simp add: ioinit_def Let_def write8_def write16_def init_consts baud_consts)

lemma prev_main_init: "prev_selection (main_init m) = 0" "hw (main_init m) = ioinit m"
  by (simp_all add: main_init_def)

lemma main_loop_unchanged:
  "\<forall>pina \<in> set pinas. sample_bits pina = prev_selection s \<Longrightarrow> main_loop pinas s = s"
  by (induction pinas) (simp_all add: loop_body_unchanged)

section \<open>The selector decoder\<close>

text \<open>
  C1. For each code from 0 to 7, \<open>baud_set\<close> returns the tabulated divisor: 23, 11, 5, 2,
  1 and 15 for the codes 0 to 5, and the default 11 for the undefined codes 6 and 7.
\<close>

theorem baud_set_table:
  "baud_set 0 = 23 \<and> baud_set 1 = 11 \<and> baud_set 2 = 5 \<and> baud_set 3 = 2 \<and>
   baud_set 4 = 1 \<and> baud_set 5 = 15 \<and> baud_set 6 = 11 \<and> baud_set 7 = 11"
  by (simp add: baud_set_def baud_consts)

text \<open>
  C5. The decoder has no error path. \<open>baud_set\<close> is straight-line code, a chain of
  comparisons each followed by an assignment and one \<open>return\<close>, so every call returns;
  whatever its argument, the value returned is one of the six tabulated divisors. That
  holds in particular for the two arguments the loop computes from any reading of the
  port, and the unmapped codes 6 and 7 give the default 11.
\<close>

theorem baud_set_no_error_path:
  "baud_set baud \<in> {23, 11, 5, 2, 1, 15}
   \<and> baud_set (uint (sample_bits pina) AND 0x07) \<in> {23, 11, 5, 2, 1, 15}
   \<and> baud_set (drop_bit 3 (uint (sample_bits pina)) AND 0x07) \<in> {23, 11, 5, 2, 1, 15}
   \<and> baud_set 6 = 11 \<and> baud_set 7 = 11"
  by (simp only: baud_set_cases baud_set_values simp_thms)

text \<open>
  C10. \<open>baud_set\<close> returns the default divisor 11 for every \<open>int\<close> argument outside
  0..5, negative values and values above 7 included.
\<close>

theorem baud_set_default_outside_table:
  "baud \<notin> {0, 1, 2, 3, 4, 5} \<Longrightarrow> baud_set baud = 11"
  by (simp add: baud_set_def baud_consts)

theorem baud_set_default_outside_table_witness:
  "(-1 :: int) \<notin> {0, 1, 2, 3, 4, 5} \<and> baud_set (-1) = 11
   \<and> (8 :: int) \<notin> {0, 1, 2, 3, 4, 5} \<and> baud_set 8 = 11
   \<and> (-32768 :: int) \<notin> {0, 1, 2, 3, 4, 5} \<and> baud_set (-32768) = 11
   \<and> (32767 :: int) \<notin> {0, 1, 2, 3, 4, 5} \<and> baud_set 32767 = 11"
  using baud_set_default_outside_table [of "-1"] baud_set_default_outside_table [of 8]
    baud_set_default_outside_table [of "-32768"] baud_set_default_outside_table [of 32767]
  by simp

section \<open>The poll loop\<close>

text \<open>
  C2. In an iteration whose sampled selection differs from \<open>prev_selection\<close>, the loop
  leaves in \<open>OCR0A\<close> the divisor decoded from bits 0..2 of the selection, in \<open>OCR1A\<close>
  the divisor decoded from bits 3..5 (zero-extended to the 16-bit register), and in
  \<open>prev_selection\<close> the sampled selection.
\<close>

theorem poll_change_applies:
  assumes "sample_bits pina \<noteq> prev_selection s"
  shows "io8 (hw (loop_body pina s)) OCR0A = baud_set (uint (sample_bits pina) AND 0x07)
       \<and> io16 (hw (loop_body pina s)) OCR1A
           = ucast (baud_set (drop_bit 3 (uint (sample_bits pina)) AND 0x07))
       \<and> prev_selection (loop_body pina s) = sample_bits pina"
  using assms by (simp add: loop_body_changed write8_def write16_def)

theorem poll_change_applies_witness:
  "sample_bits 0b101101 \<noteq> prev_selection (main_init mcu_zero)
   \<and> io8 (hw (loop_body 0b101101 (main_init mcu_zero))) OCR0A = 15
   \<and> io16 (hw (loop_body 0b101101 (main_init mcu_zero))) OCR1A = 15
   \<and> prev_selection (loop_body 0b101101 (main_init mcu_zero)) = 0b101101"
proof -
  have h: "sample_bits 0b101101 \<noteq> prev_selection (main_init mcu_zero)"
    by (simp add: sample_45 prev_main_init)
  show ?thesis
    using h poll_change_applies [OF h] by (simp add: sample_45 baud_set_values)
qed

text \<open>
  C3. In an iteration whose sampled selection equals \<open>prev_selection\<close>, the state is
  left as it was: no register is written (the trace does not grow), and both compare
  registers and \<open>prev_selection\<close> keep their values. Hence a second iteration on the
  same reading of the port is always such an iteration: it changes nothing and writes
  nothing, whatever the first one did.
\<close>

theorem poll_unchanged_noop:
  "(sample_bits pina = prev_selection s \<longrightarrow>
      loop_body pina s = s \<and> trace (hw (loop_body pina s)) = trace (hw s))
   \<and> loop_body pina (loop_body pina s) = loop_body pina s
   \<and> trace (hw (loop_body pina (loop_body pina s))) = trace (hw (loop_body pina s))"
  by (simp add: loop_body_unchanged prev_loop_body)

theorem poll_unchanged_noop_witness:
  "sample_bits 0b001001 = prev_selection (loop_body 0b001001 (main_init mcu_zero))
   \<and> loop_body 0b001001 (loop_body 0b001001 (main_init mcu_zero))
       = loop_body 0b001001 (main_init mcu_zero)
   \<and> trace (hw (loop_body 0b001001 (loop_body 0b001001 (main_init mcu_zero))))
       = trace (ioinit mcu_zero) @ [W8 OCR0A 11, W16 OCR1A 11]"
  using poll_unchanged_noop [of "0b001001" "loop_body 0b001001 (main_init mcu_zero)"]
  by (simp add: prev_loop_body trace_loop_body sample_9 baud_set_values prev_main_init)

text \<open>
  C4. Channel independence. Take two iterations that each detect a change, in any two
  states. If the two sampled selections agree on bits 0..2 (mask \<open>0x07\<close>), both
  iterations leave the same divisor in \<open>OCR0A\<close>, whatever bits 3..5 are; if they agree
  on bits 3..5 (mask \<open>0x38\<close>), both leave the same divisor in \<open>OCR1A\<close>, whatever bits
  0..2 are.
\<close>

theorem channel_independence:
  assumes "sample_bits x \<noteq> prev_selection s" and "sample_bits y \<noteq> prev_selection t"
  shows "(sample_bits x AND 0x07 = sample_bits y AND 0x07 \<longrightarrow>
            io8 (hw (loop_body x s)) OCR0A = io8 (hw (loop_body y t)) OCR0A)
       \<and> (sample_bits x AND 0x38 = sample_bits y AND 0x38 \<longrightarrow>
            io16 (hw (loop_body x s)) OCR1A = io16 (hw (loop_body y t)) OCR1A)"
  using assms
  by (simp add: loop_body_changed write8_def write16_def sel_A_word sel_B_word)

theorem channel_independence_witness:
  "(sample_bits 0b001101 \<noteq> prev_selection (main_init mcu_zero)
    \<and> sample_bits 0b100101 \<noteq> prev_selection (main_init mcu_zero)
    \<and> sample_bits 0b001101 AND 0x07 = sample_bits 0b100101 AND 0x07
    \<and> io8 (hw (loop_body 0b001101 (main_init mcu_zero))) OCR0A
        = io8 (hw (loop_body 0b100101 (main_init mcu_zero))) OCR0A)
   \<and> (sample_bits 0b010001 \<noteq> prev_selection (main_init mcu_zero)
    \<and> sample_bits 0b010100 \<noteq> prev_selection (main_init mcu_zero)
    \<and> sample_bits 0b010001 AND 0x38 = sample_bits 0b010100 AND 0x38
    \<and> io16 (hw (loop_body 0b010001 (main_init mcu_zero))) OCR1A
        = io16 (hw (loop_body 0b010100 (main_init mcu_zero))) OCR1A)"
proof -
  have a: "sample_bits 0b001101 \<noteq> prev_selection (main_init mcu_zero)"
    and b: "sample_bits 0b100101 \<noteq> prev_selection (main_init mcu_zero)"
    and c: "sample_bits 0b010001 \<noteq> prev_selection (main_init mcu_zero)"
    and d: "sample_bits 0b010100 \<noteq> prev_selection (main_init mcu_zero)"
    by (simp_all add: sample_bits_mask prev_main_init)
  have e: "sample_bits 0b001101 AND 0x07 = sample_bits 0b100101 AND 0x07"
    and f: "sample_bits 0b010001 AND 0x38 = sample_bits 0b010100 AND 0x38"
    by (simp_all add: sample_bits_mask)
  show ?thesis
    using a b c d e f channel_independence [OF a b] channel_independence [OF c d]
    by simp
qed

text \<open>
  C6. \<open>prev_selection\<close> is 0 when the loop is entered, and an iteration changes it
  exactly when the sampled selection differs from it. So from any state in which it is 0,
  in particular the state at the entry of the loop, an iteration that reads
  \<open>0b001001\<close> adds exactly two writes to the trace: 11 to \<open>OCR0A\<close> and 11 to \<open>OCR1A\<close>.
\<close>

theorem prev_selection_change_detection:
  "prev_selection (main [] m) = 0
   \<and> (prev_selection (loop_body pina s) \<noteq> prev_selection s
        \<longleftrightarrow> sample_bits pina \<noteq> prev_selection s)
   \<and> (prev_selection s = 0 \<longrightarrow>
        trace (hw (loop_body 0b001001 s)) = trace (hw s) @ [W8 OCR0A 11, W16 OCR1A 11])
   \<and> trace (hw (main [0b001001] m)) = trace (ioinit m) @ [W8 OCR0A 11, W16 OCR1A 11]"
  by (simp add: main_def prev_main_init prev_loop_body trace_loop_body sample_9
      baud_set_values)

theorem prev_selection_change_detection_witness:
  "prev_selection (main_init mcu_zero) = 0
   \<and> prev_selection (loop_body 0b001001 (main_init mcu_zero)) \<noteq> 0
   \<and> trace (hw (loop_body 0b001001 (main_init mcu_zero)))
       = trace (hw (main_init mcu_zero)) @ [W8 OCR0A 11, W16 OCR1A 11]"
proof -
  have h: "prev_selection (main_init mcu_zero) = 0"
    by (simp add: prev_main_init)
  show ?thesis
    using h prev_selection_change_detection [of mcu_zero "0b001001" "main_init mcu_zero"]
    by (simp add: sample_9)
qed

text \<open>
  C7. In every iteration, from any state and for any reading of the port, both arguments
  the loop passes to \<open>baud_set\<close> lie in 0..7; every value \<open>baud_set\<close> returns lies in
  0..255; and every write the iteration performs is a write of a value in 0..255 to
  \<open>OCR0A\<close> or to \<open>OCR1A\<close>.
\<close>

theorem selector_and_divisor_ranges:
  "0 \<le> uint (sample_bits pina) AND 0x07 \<and> uint (sample_bits pina) AND 0x07 \<le> 7
   \<and> 0 \<le> drop_bit 3 (uint (sample_bits pina)) AND 0x07
   \<and> drop_bit 3 (uint (sample_bits pina)) AND 0x07 \<le> 7
   \<and> 0 \<le> uint (baud_set baud) \<and> uint (baud_set baud) \<le> 255
   \<and> (\<forall>w \<in> set (drop (length (trace (hw s))) (trace (hw (loop_body pina s)))).
        case w of W8 r v \<Rightarrow> r = OCR0A \<and> 0 \<le> uint v \<and> uint v \<le> 255
                | W16 r v \<Rightarrow> r = OCR1A \<and> 0 \<le> uint v \<and> uint v \<le> 255)"
proof -
  have d: "uint (baud_set b) \<le> 255" for b
    using baud_set_cases [of b] by auto
  have e: "uint (ucast (baud_set b) :: u16) \<le> 255" for b
    using baud_set_cases [of b] by auto
  show ?thesis
    by (auto simp: sel_A_range sel_B_range d e trace_loop_body)
qed

theorem selector_and_divisor_ranges_witness:
  "W16 OCR1A 15 \<in> set (drop (length (trace (hw (main_init mcu_zero))))
                      (trace (hw (loop_body 0b101101 (main_init mcu_zero)))))
   \<and> uint (15 :: u16) \<le> 255"
proof -
  have m: "W16 OCR1A 15 \<in> set (drop (length (trace (hw (main_init mcu_zero))))
                      (trace (hw (loop_body 0b101101 (main_init mcu_zero)))))"
    by (simp add: trace_loop_body sample_45 prev_main_init baud_set_values)
  show ?thesis
    using m selector_and_divisor_ranges [of "0b101101" 0 "main_init mcu_zero"]
    by auto
qed

text \<open>
  C8. In an iteration that detects a change, the writes performed are exactly two, and
  the write to \<open>OCR0A\<close> (channel A) comes before the write to \<open>OCR1A\<close> (channel B).
\<close>

theorem channel_A_written_before_B:
  assumes "sample_bits pina \<noteq> prev_selection s"
  shows "trace (hw (loop_body pina s)) =
           trace (hw s) @
           [W8 OCR0A (baud_set (uint (sample_bits pina) AND 0x07)),
            W16 OCR1A (ucast (baud_set (drop_bit 3 (uint (sample_bits pina)) AND 0x07)))]"
  using assms by (simp add: trace_loop_body)

theorem channel_A_written_before_B_witness:
  "sample_bits 0b011000 \<noteq> prev_selection (main_init mcu_zero)
   \<and> trace (hw (loop_body 0b011000 (main_init mcu_zero)))
       = trace (ioinit mcu_zero) @ [W8 OCR0A 23, W16 OCR1A 2]"
proof -
  have h: "sample_bits 0b011000 \<noteq> prev_selection (main_init mcu_zero)"
    by (simp add: sample_bits_mask prev_main_init)
  show ?thesis
    using h channel_A_written_before_B [OF h]
    by (simp add: sample_bits_mask prev_main_init baud_set_values)
qed

text \<open>
  C9. If bits 0..5 of every reading of the port are 0 from the start, then after any
  number of iterations the state is still the one at the entry of the loop: the loop has
  written no register, \<open>OCR0A\<close> and \<open>OCR1A\<close> hold the divisor 11 that \<open>ioinit\<close> wrote,
  and \<open>prev_selection\<close> is 0; the divisor \<open>baud_set\<close> gives for the selected code 0 is
  23 on both channels.
\<close>

theorem zero_input_keeps_default:
  assumes "\<forall>pina \<in> set pinas. pina AND 0x3F = 0"
  shows "main pinas m = main_init m
       \<and> trace (hw (main pinas m)) = trace (ioinit m)
       \<and> io8 (hw (main pinas m)) OCR0A = 11
       \<and> io16 (hw (main pinas m)) OCR1A = 11
       \<and> prev_selection (main pinas m) = 0
       \<and> baud_set (uint (0 :: u8) AND 0x07) = 23
       \<and> baud_set (drop_bit 3 (uint (0 :: u8)) AND 0x07) = 23"
proof -
  from assms have "\<forall>pina \<in> set pinas. sample_bits pina = prev_selection (main_init m)"
    by (simp add: sample_bits_mask prev_main_init)
  then have "main pinas m = main_init m"
    unfolding main_def by (rule main_loop_unchanged)
  then show ?thesis
    by (simp add: prev_main_init ioinit_OCR0A ioinit_OCR1A baud_set_values)
qed

theorem zero_input_keeps_default_witness:
  "(0 :: u8) AND 0x3F = 0 \<and> (0x40 :: u8) AND 0x3F = 0 \<and> (0xC0 :: u8) AND 0x3F = 0
   \<and> trace (hw (main [0, 0x40, 0xC0, 0] mcu_zero)) = trace (ioinit mcu_zero)
   \<and> io8 (hw (main [0, 0x40, 0xC0, 0] mcu_zero)) OCR0A = 11
   \<and> io16 (hw (main [0, 0x40, 0xC0, 0] mcu_zero)) OCR1A = 11"
proof -
  have h: "\<forall>pina \<in> set [0, 0x40, 0xC0, 0 :: u8]. pina AND 0x3F = 0"
    by simp
  have "(0 :: u8) AND 0x3F = 0 \<and> (0x40 :: u8) AND 0x3F = 0 \<and> (0xC0 :: u8) AND 0x3F = 0"
    by simp
  with zero_input_keeps_default [OF h, of mcu_zero] show ?thesis
    by blast
qed

end
